theory Spec2Isabelle
  imports Complex_Main "HOL-Library.Sublist"
begin

section \<open>Python values the backend computes with\<close>

text \<open>
  The embedding follows \<^verbatim>\<open>python_backend/distance_calculator.py\<close>,
  \<^verbatim>\<open>routing_engine.py\<close>, \<^verbatim>\<open>models.py\<close> and the
  \<^verbatim>\<open>/optimize-route\<close> handler of \<^verbatim>\<open>main.py\<close>.

  Conventions.
  \<^item> A Python \<^verbatim>\<open>str\<close> is a \<^typ>\<open>string\<close>. The built-in \<^verbatim>\<open>int\<close> is modelled by
    \<open>py_int\<close> for ASCII text (CPython also reads the decimal digits and blanks of other
    scripts); \<open>time_to_minutes\<close> is first defined for any reading of \<^verbatim>\<open>int\<close>, so that
    what is proved of it for every string does not rest on \<open>py_int\<close>.
  \<^item> A Python \<^verbatim>\<open>int\<close> is an \<^typ>\<open>int\<close>.
  \<^item> A Python \<^verbatim>\<open>float\<close> is a \<^typ>\<open>real\<close>, or a \<open>pyfloat\<close> where the code can
    produce \<^verbatim>\<open>float('inf')\<close>. Rounding of finite floats is not modelled; the
    concrete inputs evaluated below only use values on which float arithmetic is exact.
  \<^item> A raised exception is the \<open>Inl\<close> of a sum; \<^verbatim>\<open>except\<close> is a case on it.
\<close>

datatype py_error = ValueError | OverflowError | IndexError | TypeError

text \<open>\<^verbatim>\<open>str(e)\<close> of the exceptions the engine can raise.\<close>

fun str_of_error :: "py_error \<Rightarrow> string" where
  "str_of_error OverflowError = ''cannot convert float infinity to integer''"
| "str_of_error IndexError = ''list index out of range''"
| "str_of_error ValueError = ''invalid literal for int() with base 10''"
| "str_of_error TypeError = ''float() argument must be a string or a real number''"

definition bind :: "py_error + 'a \<Rightarrow> ('a \<Rightarrow> py_error + 'b) \<Rightarrow> py_error + 'b" where
  "bind m f = (case m of Inl e \<Rightarrow> Inl e | Inr v \<Rightarrow> f v)"

datatype pyfloat = Finite real | Infinity

fun fadd :: "pyfloat \<Rightarrow> pyfloat \<Rightarrow> pyfloat" where
  "fadd (Finite a) (Finite b) = Finite (a + b)"
| "fadd _ _ = Infinity"

text \<open>\<^verbatim>\<open>int(x)\<close> of a float truncates towards zero and raises OverflowError on infinity.\<close>

fun int_of_float :: "pyfloat \<Rightarrow> py_error + int" where
  "int_of_float (Finite r) = Inr (if 0 \<le> r then \<lfloor>r\<rfloor> else \<lceil>r\<rceil>)"
| "int_of_float Infinity = Inl OverflowError"

text \<open>\<^verbatim>\<open>xs[i]\<close> for an index that is not negative.\<close>

definition getitem :: "'a list \<Rightarrow> nat \<Rightarrow> py_error + 'a" where
  "getitem xs i = (if i < length xs then Inr (xs ! i) else Inl IndexError)"

subsection \<open>\<^verbatim>\<open>int(str)\<close>, \<^verbatim>\<open>str.split\<close> and \<^verbatim>\<open>format(n, '02d')\<close>\<close>

text \<open>
  The blanks that \<^verbatim>\<open>int\<close> skips around an ASCII literal: tab, line feed, vertical tab,
  form feed, carriage return (9 to 13) and the space (32).
\<close>

definition is_space :: "char \<Rightarrow> bool" where
  "is_space c = (let n = (of_char c :: nat) in (9 \<le> n \<and> n \<le> 13) \<or> n = 32)"

definition is_digit :: "char \<Rightarrow> bool" where
  "is_digit c = (let n = (of_char c :: nat) in 48 \<le> n \<and> n \<le> 57)"

definition digit_val :: "char \<Rightarrow> nat" where
  "digit_val c = of_char c - 48"

definition strip :: "string \<Rightarrow> string" where
  "strip s = rev (dropWhile is_space (rev (dropWhile is_space s)))"

text \<open>
  The digits of a decimal literal after its sign: digits, with single underscores allowed
  between two digits. \<open>acc\<close> is the value read so far.
\<close>

fun digits_from :: "nat \<Rightarrow> string \<Rightarrow> nat option" where
  "digits_from acc [] = Some acc"
| "digits_from acc [c] = (if is_digit c then Some (acc * 10 + digit_val c) else None)"
| "digits_from acc (c # d # cs) =
     (if is_digit c then digits_from (acc * 10 + digit_val c) (d # cs)
      else if c = CHR ''_'' \<and> is_digit d then digits_from (acc * 10 + digit_val d) cs
      else None)"

text \<open>
  CPython (3.11, and the security releases of 3.7 to 3.10) refuses a decimal literal of more
  than \<^verbatim>\<open>sys.get_int_max_str_digits()\<close> digits, 4300 unless configured otherwise;
  underscores do not count, leading zeros do.
\<close>

definition int_max_str_digits :: int where
  "int_max_str_digits = 4300"

definition unsigned_literal :: "string \<Rightarrow> nat option" where
  "unsigned_literal body =
     (case body of [] \<Rightarrow> None
      | c # _ \<Rightarrow>
          if is_digit c \<and> int (length (filter is_digit body)) \<le> int_max_str_digits
          then digits_from 0 body else None)"

text \<open>
  \<^verbatim>\<open>int(s)\<close> in base 10 for ASCII text: surrounding blanks, an optional sign, the digits;
  ValueError on anything else.
\<close>

definition py_int :: "string \<Rightarrow> py_error + int" where
  "py_int s =
     (case strip s of
        [] \<Rightarrow> Inl ValueError
      | c # cs \<Rightarrow>
          if c = CHR ''-'' then
            (case unsigned_literal cs of None \<Rightarrow> Inl ValueError | Some n \<Rightarrow> Inr (- int n))
          else if c = CHR ''+'' then
            (case unsigned_literal cs of None \<Rightarrow> Inl ValueError | Some n \<Rightarrow> Inr (int n))
          else
            (case unsigned_literal (c # cs) of None \<Rightarrow> Inl ValueError | Some n \<Rightarrow> Inr (int n)))"

text \<open>\<^verbatim>\<open>s.split(sep)\<close> for a one-character separator.\<close>

fun split_on :: "char \<Rightarrow> string \<Rightarrow> string list" where
  "split_on sep [] = [[]]"
| "split_on sep (c # cs) =
     (if c = sep then [] # split_on sep cs
      else (case split_on sep cs of [] \<Rightarrow> [[c]] | p # ps \<Rightarrow> (c # p) # ps))"

definition digit_char :: "nat \<Rightarrow> char" where
  "digit_char d = char_of (48 + d)"

text \<open>The decimal digits of a natural number, most significant first, before \<open>rest\<close>.\<close>

fun decimal :: "nat \<Rightarrow> string \<Rightarrow> string" where
  "decimal n rest =
     (if n < 10 then digit_char n # rest
      else decimal (n div 10) (digit_char (n mod 10) # rest))"

declare decimal.simps [simp del]

text \<open>\<^verbatim>\<open>f"{n:02d}"\<close>: zero padding to width two; a minus sign counts for the width.\<close>

definition format_02d :: "int \<Rightarrow> string" where
  "format_02d n =
     (if n < 0 then CHR ''-'' # decimal (nat (- n)) []
      else if n < 10 then CHR ''0'' # decimal (nat n) []
      else decimal (nat n) [])"

section \<open>\<^verbatim>\<open>distance_calculator.py\<close>\<close>

record DistanceCalculator =
  default_speed_kmh :: real

text \<open>
  \<^verbatim>\<open>time_to_minutes\<close>. The body of the \<^verbatim>\<open>try\<close>: unpacking the mapped parts into
  two names raises ValueError unless there are exactly two, and \<^verbatim>\<open>int\<close> raises
  ValueError on a part that is no integer literal. The built-in \<^verbatim>\<open>int\<close> is the
  parameter \<open>int_of_str\<close>.
\<close>

definition time_to_minutes_try_with ::
  "(string \<Rightarrow> py_error + int) \<Rightarrow> string \<Rightarrow> py_error + int" where
  "time_to_minutes_try_with int_of_str time_str =
     (case split_on CHR '':'' time_str of
        [h, m] \<Rightarrow>
          bind (int_of_str h) (\<lambda>hours. bind (int_of_str m) (\<lambda>minutes.
            Inr (hours * 60 + minutes)))
      | _ \<Rightarrow> Inl ValueError)"

text \<open>The bare \<^verbatim>\<open>except:\<close> turns every exception into the value 0.\<close>

definition time_to_minutes_with ::
  "(string \<Rightarrow> py_error + int) \<Rightarrow> string \<Rightarrow> py_error + int" where
  "time_to_minutes_with int_of_str time_str =
     (case time_to_minutes_try_with int_of_str time_str of Inl e \<Rightarrow> Inr 0 | Inr v \<Rightarrow> Inr v)"

text \<open>The method as it runs, with \<^verbatim>\<open>int\<close> read as \<open>py_int\<close>.\<close>

definition time_to_minutes_try :: "string \<Rightarrow> py_error + int" where
  "time_to_minutes_try time_str = time_to_minutes_try_with py_int time_str"

definition time_to_minutes :: "string \<Rightarrow> py_error + int" where
  "time_to_minutes time_str = time_to_minutes_with py_int time_str"

definition minutes_to_time :: "int \<Rightarrow> string" where
  "minutes_to_time minutes =
     (let hours = minutes div 60; mins = minutes mod 60
      in format_02d hours @ '':'' @ format_02d mins)"

definition is_time_window_valid :: "int \<Rightarrow> string \<Rightarrow> string \<Rightarrow> py_error + bool" where
  "is_time_window_valid arrival_time_minutes time_window_start time_window_end =
     bind (time_to_minutes time_window_start) (\<lambda>start_minutes.
     bind (time_to_minutes time_window_end) (\<lambda>end_minutes.
       if end_minutes < start_minutes
       then Inr (arrival_time_minutes \<ge> start_minutes \<or> arrival_time_minutes \<le> end_minutes)
       else Inr (start_minutes \<le> arrival_time_minutes \<and> arrival_time_minutes \<le> end_minutes)))"

text \<open>
  \<^verbatim>\<open>geopy.distance.geodesic\<close> is an external library: the distance in kilometres between
  two (latitude, longitude) points is the parameter \<open>geodesic\<close> of every function that
  asks for one.
\<close>

type_synonym point = "real \<times> real"

definition calculate_travel_time :: "DistanceCalculator \<Rightarrow> real \<Rightarrow> real option \<Rightarrow> pyfloat" where
  "calculate_travel_time self distance_km speed_kmh =
     (let speed = (case speed_kmh of None \<Rightarrow> default_speed_kmh self | Some v \<Rightarrow> v)
      in if speed \<le> 0 then Infinity else Finite (distance_km / speed * 60))"

definition create_distance_matrix ::
  "(point \<Rightarrow> point \<Rightarrow> real) \<Rightarrow> DistanceCalculator \<Rightarrow> point list \<Rightarrow>
     real list list \<times> pyfloat list list" where
  "create_distance_matrix geodesic self points =
     (let n = length points
      in (map (\<lambda>i. map (\<lambda>j. if i \<noteq> j then geodesic (points ! i) (points ! j) else 0) [0..<n])
            [0..<n],
          map (\<lambda>i. map (\<lambda>j. if i \<noteq> j
                               then calculate_travel_time self
                                      (geodesic (points ! i) (points ! j)) None
                               else Finite 0) [0..<n])
            [0..<n]))"

definition validate_coordinates :: "real \<Rightarrow> real \<Rightarrow> bool" where
  "validate_coordinates lat lng = (- 90 \<le> lat \<and> lat \<le> 90 \<and> - 180 \<le> lng \<and> lng \<le> 180)"

section \<open>\<^verbatim>\<open>models.py\<close>\<close>

text \<open>
  Fields that several models share are told apart by a prefix: \<open>p_\<close> for the pickup,
  \<open>d_\<close> for a delivery, \<open>req_\<close> for the request; those of \<open>RouteStop\<close> keep the
  source's names. \<open>window_start\<close> and \<open>window_end\<close> are \<^verbatim>\<open>TimeWindow.start\<close> and
  \<^verbatim>\<open>TimeWindow.end\<close>.
\<close>

datatype PriorityLevel = HIGH | MEDIUM | LOW

fun priority_value :: "PriorityLevel \<Rightarrow> int" where
  "priority_value HIGH = 1"
| "priority_value MEDIUM = 2"
| "priority_value LOW = 3"

datatype OptimizeBy = DISTANCE | TIME | PRIORITY

fun optimize_by_value :: "OptimizeBy \<Rightarrow> string" where
  "optimize_by_value DISTANCE = ''distance''"
| "optimize_by_value TIME = ''time''"
| "optimize_by_value PRIORITY = ''priority''"

record TimeWindow =
  window_start :: string
  window_end :: string

record PickupLocation =
  p_address :: string
  p_zipcode :: string
  p_lat :: real
  p_lng :: real
  start_time :: string
  end_time :: string

record Settings =
  return_to_origin :: bool
  time_per_stop_minutes :: int
  vehicle_speed_kmph :: real
  optimize_by :: OptimizeBy

record Delivery =
  d_address :: string
  d_zipcode :: string
  d_lat :: real
  d_lng :: real
  d_priority :: PriorityLevel
  time_window :: TimeWindow

record RoutingRequest =
  req_pickup :: PickupLocation
  req_settings :: Settings
  req_deliveries :: "Delivery list"

record RouteStop =
  stop :: string
  zipcode :: string
  arrival_time :: string
  departure_time :: "string option"
  address :: "string option"
  lat :: "real option"
  lng :: "real option"
  priority :: "PriorityLevel option"

text \<open>A \<^verbatim>\<open>Dict[str, Any]\<close>: the keys in insertion order with their values.\<close>

datatype py_value = PStr string | PInt int

type_synonym py_dict = "(string \<times> py_value) list"

record RoutingResponse =
  route :: "RouteStop list"
  total_distance_km :: real
  total_time_minutes :: int
  is_feasible :: bool
  skipped_deliveries :: "py_dict list"
  optimization_metrics :: py_dict

section \<open>\<^verbatim>\<open>routing_engine.py\<close>\<close>

text \<open>
  The engine's methods take the engine's \<^verbatim>\<open>distance_calculator\<close> as \<open>self\<close>; it is built
  from the configured \<^verbatim>\<open>default_speed_kmh\<close>. Names lose their leading underscore.
\<close>

definition prepare_optimization_data ::
  "(point \<Rightarrow> point \<Rightarrow> real) \<Rightarrow> DistanceCalculator \<Rightarrow> PickupLocation \<Rightarrow> Delivery list \<Rightarrow>
     Settings \<Rightarrow>
     point list \<times> real list list \<times> pyfloat list list \<times> int list \<times> (string \<times> string) list" where
  "prepare_optimization_data geodesic self pickup deliveries settings =
     (let points = (p_lat pickup, p_lng pickup) # map (\<lambda>delivery. (d_lat delivery, d_lng delivery)) deliveries;
          priorities = 0 # map (\<lambda>delivery. priority_value (d_priority delivery)) deliveries;
          time_windows = (start_time pickup, end_time pickup) #
            map (\<lambda>delivery. (window_start (time_window delivery), window_end (time_window delivery)))
              deliveries;
          (distance_matrix, time_matrix) = create_distance_matrix geodesic self points
      in (points, distance_matrix, time_matrix, priorities, time_windows))"

text \<open>
  \<^verbatim>\<open>_solve_routing_problem\<close> hands the integer arc costs \<^verbatim>\<open>int(distance * 1000)\<close> to the
  OR-Tools routing solver, for one vehicle that starts and ends at node 0, with no
  disjunction and no time dimension added (\<^verbatim>\<open>_add_priority_constraints\<close> is
  \<^verbatim>\<open>pass\<close>; \<open>time_matrix\<close>, \<open>priorities\<close> and \<open>time_windows\<close> are not read). The solver is
  external: its answer is the parameter \<open>solution\<close> of the model, \<open>None\<close> when
  \<^verbatim>\<open>SolveWithParameters\<close> returns no assignment, and otherwise the nodes that following
  \<^verbatim>\<open>NextVar\<close> from \<^verbatim>\<open>routing.Start(0)\<close> visits before the end index, which is node 0
  again. Without disjunctions such a tour visits every delivery node once.
\<close>

definition full_tour :: "nat \<Rightarrow> nat list \<Rightarrow> bool" where
  "full_tour n visits = (distinct visits \<and> set visits = {1..n})"

definition pickup_stop :: "PickupLocation \<Rightarrow> RouteStop" where
  "pickup_stop pickup =
     \<lparr>stop = p_address pickup, zipcode = p_zipcode pickup, arrival_time = start_time pickup,
      departure_time = Some (start_time pickup), address = Some (p_address pickup),
      lat = Some (p_lat pickup), lng = Some (p_lng pickup), priority = None\<rparr>"

definition return_stop :: "PickupLocation \<Rightarrow> string \<Rightarrow> RouteStop" where
  "return_stop pickup arrival =
     \<lparr>stop = p_address pickup @ '' (Return)'', zipcode = p_zipcode pickup, arrival_time = arrival,
      departure_time = None, address = Some (p_address pickup),
      lat = Some (p_lat pickup), lng = Some (p_lng pickup), priority = None\<rparr>"

definition delivery_stop :: "Delivery \<Rightarrow> string \<Rightarrow> string \<Rightarrow> RouteStop" where
  "delivery_stop delivery arrival departure =
     \<lparr>stop = d_address delivery, zipcode = d_zipcode delivery, arrival_time = arrival,
      departure_time = Some departure, address = Some (d_address delivery),
      lat = Some (d_lat delivery), lng = Some (d_lng delivery),
      priority = Some (d_priority delivery)\<rparr>"

text \<open>
  The \<^verbatim>\<open>while not routing.IsEnd(index)\<close> loop of \<^verbatim>\<open>_extract_route\<close>: one round per
  node the tour moves to, from \<open>from_node\<close> at time \<open>current_time_minutes\<close>.
\<close>

fun extract_route_loop ::
  "PickupLocation \<Rightarrow> Delivery list \<Rightarrow> Settings \<Rightarrow> pyfloat list list \<Rightarrow> nat \<Rightarrow> pyfloat \<Rightarrow>
     nat list \<Rightarrow> py_error + RouteStop list" where
  "extract_route_loop pickup deliveries settings time_matrix from_node current_time_minutes [] =
     Inr []"
| "extract_route_loop pickup deliveries settings time_matrix from_node current_time_minutes
     (to_node # rest) =
     bind (getitem time_matrix from_node) (\<lambda>row.
     bind (getitem row to_node) (\<lambda>travel_time.
       let now = (if from_node = 0 then fadd current_time_minutes travel_time
                  else fadd (fadd current_time_minutes
                          (Finite (of_int (time_per_stop_minutes settings)))) travel_time)
       in
     bind (int_of_float now) (\<lambda>minute.
       let arrival = minutes_to_time minute;
           departure = minutes_to_time (minute + time_per_stop_minutes settings)
       in
     bind (if to_node = 0 then Inr (return_stop pickup arrival)
           else bind (getitem deliveries (to_node - 1)) (\<lambda>delivery.
                  Inr (delivery_stop delivery arrival departure))) (\<lambda>route_stop.
     bind (extract_route_loop pickup deliveries settings time_matrix to_node now rest) (\<lambda>stops.
       Inr (route_stop # stops))))))"

definition extract_route ::
  "nat list \<Rightarrow> PickupLocation \<Rightarrow> Delivery list \<Rightarrow> Settings \<Rightarrow> pyfloat list list \<Rightarrow>
     py_error + RouteStop list" where
  "extract_route visits pickup deliveries settings time_matrix =
     bind (time_to_minutes (start_time pickup)) (\<lambda>start.
     bind (extract_route_loop pickup deliveries settings time_matrix 0 (Finite (of_int start))
             (visits @ [0])) (\<lambda>stops.
       Inr (pickup_stop pickup # stops)))"

definition stop_point :: "RouteStop \<Rightarrow> py_error + point" where
  "stop_point s =
     (case (lat s, lng s) of (Some a, Some b) \<Rightarrow> Inr (a, b) | _ \<Rightarrow> Inl TypeError)"

fun calculate_total_distance_from ::
  "(point \<Rightarrow> point \<Rightarrow> real) \<Rightarrow> real \<Rightarrow> RouteStop list \<Rightarrow> py_error + real" where
  "calculate_total_distance_from geodesic total_distance (a # b # rest) =
     bind (stop_point a) (\<lambda>p. bind (stop_point b) (\<lambda>q.
       calculate_total_distance_from geodesic (total_distance + geodesic p q) (b # rest)))"
| "calculate_total_distance_from geodesic total_distance _ = Inr total_distance"

definition calculate_total_distance ::
  "(point \<Rightarrow> point \<Rightarrow> real) \<Rightarrow> RouteStop list \<Rightarrow> py_error + real" where
  "calculate_total_distance geodesic route_stops =
     calculate_total_distance_from geodesic 0 route_stops"

text \<open>
  In \<^verbatim>\<open>_calculate_total_time\<close>, \<^verbatim>\<open>i < len(route_stops) - 2\<close> says that the leg is not
  the last one.
\<close>

fun calculate_total_time_from ::
  "(point \<Rightarrow> point \<Rightarrow> real) \<Rightarrow> DistanceCalculator \<Rightarrow> int \<Rightarrow> pyfloat \<Rightarrow> RouteStop list \<Rightarrow>
     py_error + pyfloat" where
  "calculate_total_time_from geodesic self service_time_minutes total_time (a # b # rest) =
     bind (stop_point a) (\<lambda>p. bind (stop_point b) (\<lambda>q.
       let travel_time = calculate_travel_time self (geodesic p q) None;
           total = fadd total_time travel_time;
           total' = (if rest \<noteq> [] \<or> \<not> sublist ''Return'' (stop b)
                     then fadd total (Finite (of_int service_time_minutes)) else total)
       in calculate_total_time_from geodesic self service_time_minutes total' (b # rest)))"
| "calculate_total_time_from geodesic self service_time_minutes total_time _ = Inr total_time"

definition calculate_total_time ::
  "(point \<Rightarrow> point \<Rightarrow> real) \<Rightarrow> DistanceCalculator \<Rightarrow> RouteStop list \<Rightarrow> int \<Rightarrow> py_error + int" where
  "calculate_total_time geodesic self route_stops service_time_minutes =
     bind (calculate_total_time_from geodesic self service_time_minutes (Finite 0) route_stops)
       int_of_float"

text \<open>
  \<^verbatim>\<open>{stop.address for stop in route_stops if stop.address and "Return" not in stop.stop}\<close>:
  an address counts when it is neither \<^verbatim>\<open>None\<close> nor empty and the stop's label does not
  contain \<^verbatim>\<open>Return\<close>.
\<close>

definition counted_address :: "RouteStop \<Rightarrow> string option" where
  "counted_address s =
     (case address s of
        None \<Rightarrow> None
      | Some a \<Rightarrow> if a \<noteq> [] \<and> \<not> sublist ''Return'' (stop s) then Some a else None)"

definition included_addresses :: "RouteStop list \<Rightarrow> string set" where
  "included_addresses route_stops = set (List.map_filter counted_address route_stops)"

definition skipped_entry :: "Delivery \<Rightarrow> string \<Rightarrow> py_dict" where
  "skipped_entry delivery reason =
     [(''address'', PStr (d_address delivery)), (''zipcode'', PStr (d_zipcode delivery)),
      (''priority'', PInt (priority_value (d_priority delivery))), (''reason'', PStr reason)]"

definition determine_skipped_deliveries :: "Delivery list \<Rightarrow> RouteStop list \<Rightarrow> py_dict list" where
  "determine_skipped_deliveries deliveries route_stops =
     map (\<lambda>delivery. skipped_entry delivery ''Not included in optimal route'')
       (filter (\<lambda>delivery. d_address delivery \<notin> included_addresses route_stops) deliveries)"

text \<open>
  The metrics leave out \<^verbatim>\<open>processing_time_seconds\<close>, a reading of the wall clock.
\<close>

definition create_infeasible_response :: "PickupLocation \<Rightarrow> Delivery list \<Rightarrow> RoutingResponse" where
  "create_infeasible_response pickup deliveries =
     \<lparr>route = [], total_distance_km = 0, total_time_minutes = 0, is_feasible = False,
      skipped_deliveries =
        map (\<lambda>delivery. skipped_entry delivery
               ''Route infeasible - time constraints cannot be met'') deliveries,
      optimization_metrics = [(''error'', PStr ''No feasible solution found'')]\<rparr>"

definition optimize_route ::
  "(point \<Rightarrow> point \<Rightarrow> real) \<Rightarrow> DistanceCalculator \<Rightarrow> RoutingRequest \<Rightarrow> nat list option \<Rightarrow>
     py_error + RoutingResponse" where
  "optimize_route geodesic self request solution =
     (let pickup = req_pickup request;
          settings = req_settings request;
          deliveries = req_deliveries request;
          (points, distance_matrix, time_matrix, priorities, time_windows) =
            prepare_optimization_data geodesic self pickup deliveries settings
      in case solution of
           Some visits \<Rightarrow>
             bind (extract_route visits pickup deliveries settings time_matrix) (\<lambda>route_stops.
             bind (calculate_total_distance geodesic route_stops) (\<lambda>total_distance.
             bind (calculate_total_time geodesic self route_stops
                     (time_per_stop_minutes settings)) (\<lambda>total_time.
               let skipped = determine_skipped_deliveries deliveries route_stops
               in Inr \<lparr>route = route_stops, total_distance_km = total_distance,
                       total_time_minutes = total_time, is_feasible = True,
                       skipped_deliveries = skipped,
                       optimization_metrics =
                         [(''optimization_method'', PStr (optimize_by_value (optimize_by settings))),
                          (''total_stops'', PInt (int (length route_stops))),
                          (''skipped_stops'', PInt (int (length skipped)))]\<rparr>)))
         | None \<Rightarrow> Inr (create_infeasible_response pickup deliveries))"

section \<open>\<^verbatim>\<open>main.py\<close>: the \<^verbatim>\<open>/optimize-route\<close> handler\<close>

text \<open>
  The handler rejects a request by raising \<^verbatim>\<open>HTTPException(status_code=400, ...)\<close>; the
  detail text is kept as the data it is formatted from. Any other exception of the engine
  is caught and answered with an infeasible response that carries the error text.
\<close>

datatype rejection =
  NoDeliveries
  | InvalidPickupCoordinates real real
  | InvalidDeliveryCoordinates string real real

datatype HTTPException = HTTPException (status_code: nat) (detail: rejection)

definition error_response :: "py_error \<Rightarrow> RoutingResponse" where
  "error_response e =
     \<lparr>route = [], total_distance_km = 0, total_time_minutes = 0, is_feasible = False,
      skipped_deliveries = [[(''error'', PStr (''Internal server error: '' @ str_of_error e))]],
      optimization_metrics = []\<rparr>"

definition optimize_route_endpoint ::
  "(point \<Rightarrow> point \<Rightarrow> real) \<Rightarrow> DistanceCalculator \<Rightarrow> RoutingRequest \<Rightarrow> nat list option \<Rightarrow>
     HTTPException + RoutingResponse" where
  "optimize_route_endpoint geodesic distance_calculator request solution =
     (if req_deliveries request = [] then Inl (HTTPException 400 NoDeliveries)
      else if \<not> validate_coordinates (p_lat (req_pickup request)) (p_lng (req_pickup request))
      then Inl (HTTPException 400
             (InvalidPickupCoordinates (p_lat (req_pickup request)) (p_lng (req_pickup request))))
      else
        (case find (\<lambda>delivery. \<not> validate_coordinates (d_lat delivery) (d_lng delivery))
                (req_deliveries request) of
           Some delivery \<Rightarrow>
             Inl (HTTPException 400
               (InvalidDeliveryCoordinates (d_address delivery) (d_lat delivery) (d_lng delivery)))
         | None \<Rightarrow>
             (case optimize_route geodesic distance_calculator request solution of
                Inr result \<Rightarrow> Inr result
              | Inl e \<Rightarrow> Inr (error_response e))))"

section \<open>Requests the functions are evaluated on\<close>

text \<open>
  The evaluations below are on requests whose points all coincide: the only distance they
  ask of \<^verbatim>\<open>geodesic\<close> is that from a point to itself, 0 km, which \<open>coincident_km\<close>
  answers. The Mumbai warehouse is the pickup of the repository's \<^verbatim>\<open>/example-data\<close>.
\<close>

definition coincident_km :: "point \<Rightarrow> point \<Rightarrow> real" where
  "coincident_km p q = 0"

definition warehouse :: PickupLocation where
  "warehouse =
     \<lparr>p_address = ''Warehouse, Mumbai'', p_zipcode = ''400001'', p_lat = 189356 / 10000,
      p_lng = 728376 / 10000, start_time = ''09:00'', end_time = ''18:00''\<rparr>"

definition delivery_at_warehouse :: "string \<Rightarrow> string \<Rightarrow> string \<Rightarrow> Delivery" where
  "delivery_at_warehouse name opens closes =
     \<lparr>d_address = name, d_zipcode = ''400001'', d_lat = 189356 / 10000, d_lng = 728376 / 10000,
      d_priority = HIGH, time_window = \<lparr>window_start = opens, window_end = closes\<rparr>\<rparr>"

definition settings_with :: "bool \<Rightarrow> real \<Rightarrow> Settings" where
  "settings_with back speed =
     \<lparr>return_to_origin = back, time_per_stop_minutes = 10, vehicle_speed_kmph = speed,
      optimize_by = PRIORITY\<rparr>"

definition configured :: DistanceCalculator where
  "configured = \<lparr>default_speed_kmh = 50\<rparr>"

definition request_of :: "Settings \<Rightarrow> Delivery list \<Rightarrow> RoutingRequest" where
  "request_of settings deliveries =
     \<lparr>req_pickup = warehouse, req_settings = settings, req_deliveries = deliveries\<rparr>"

section \<open>Time strings\<close>

subsection \<open>Printing and reading decimal fields\<close>


lemma of_char_digit_char: "d < 10 \<Longrightarrow> (of_char (digit_char d) :: nat) = 48 + d"
  by (simp add: digit_char_def)

lemma is_digit_digit_char: "d < 10 \<Longrightarrow> is_digit (digit_char d)"
  by (simp add: is_digit_def of_char_digit_char)

lemma digit_val_digit_char: "d < 10 \<Longrightarrow> digit_val (digit_char d) = d"
  by (simp add: digit_val_def of_char_digit_char)

lemma is_digit_cases:
  "is_digit c \<Longrightarrow> \<not> is_space c \<and> c \<noteq> CHR '':'' \<and> c \<noteq> CHR ''-'' \<and> c \<noteq> CHR ''+''"
  by (auto simp: is_digit_def is_space_def Let_def)

lemma decimal_all_digits: "list_all is_digit rest \<Longrightarrow> list_all is_digit (decimal n rest)"
proof (induction n rest rule: decimal.induct)
  case (1 n rest)
  show ?case
  proof (cases "n < 10")
    case True
    with 1 show ?thesis by (simp add: decimal.simps [of n] is_digit_digit_char)
  next
    case False
    with 1 show ?thesis by (simp add: decimal.simps [of n] is_digit_digit_char)
  qed
qed

lemma decimal_not_Nil: "decimal n rest \<noteq> []"
proof (induction n rest rule: decimal.induct)
  case (1 n rest)
  then show ?case by (cases "n < 10") (simp_all add: decimal.simps [of n])
qed

lemma digits_from_all_digits:
  "list_all is_digit ds \<Longrightarrow> digits_from acc ds = Some (foldl (\<lambda>a c. a * 10 + digit_val c) acc ds)"
  by (induction acc ds rule: digits_from.induct) simp_all

lemma foldl_decimal:
  "foldl (\<lambda>a c. a * 10 + digit_val c) 0 (decimal n rest) = foldl (\<lambda>a c. a * 10 + digit_val c) n rest"
proof (induction n rest rule: decimal.induct)
  case (1 n rest)
  show ?case
  proof (cases "n < 10")
    case True
    then show ?thesis by (simp add: decimal.simps [of n] digit_val_digit_char)
  next
    case False
    with 1 show ?thesis by (simp add: decimal.simps [of n] digit_val_digit_char)
  qed
qed

lemma filter_all_digits: "list_all is_digit ds \<Longrightarrow> filter is_digit ds = ds"
  by (simp add: list_all_iff)

lemma unsigned_literal_digits:
  assumes "ds \<noteq> []" and "list_all is_digit ds" and "int (length ds) \<le> int_max_str_digits"
  shows "unsigned_literal ds = Some (foldl (\<lambda>a c. a * 10 + digit_val c) 0 ds)"
proof -
  from assms(1) obtain c cs where ds: "ds = c # cs" by (cases ds) auto
  with assms(2) have c: "is_digit c" by simp
  from assms(2,3) have "int (length (filter is_digit ds)) \<le> int_max_str_digits"
    by (simp add: filter_all_digits)
  with c ds have "unsigned_literal ds = digits_from 0 ds"
    by (simp add: unsigned_literal_def del: digits_from.simps)
  with assms(2) show ?thesis by (simp add: digits_from_all_digits del: digits_from.simps)
qed

lemma decimal_small: "n < 10 \<Longrightarrow> decimal n rest = digit_char n # rest"
  by (subst decimal.simps) simp

lemma decimal_length_small:
  assumes "n < 100"
  shows "length (decimal n []) \<le> 2"
proof (cases "n < 10")
  case True
  then show ?thesis by (simp add: decimal_small)
next
  case False
  from assms have "n div 10 < 10" by simp
  with False have "decimal n [] = [digit_char (n div 10), digit_char (n mod 10)]"
    by (subst decimal.simps) (simp add: decimal_small)
  then show ?thesis by simp
qed

lemma strip_id: "s \<noteq> [] \<Longrightarrow> \<not> is_space (hd s) \<Longrightarrow> \<not> is_space (last s) \<Longrightarrow> strip s = s"
proof -
  assume s: "s \<noteq> []" and h: "\<not> is_space (hd s)" and l: "\<not> is_space (last s)"
  from s h have 1: "dropWhile is_space s = s" by (cases s) simp_all
  from s l have 2: "dropWhile is_space (rev s) = rev s"
    by (cases "rev s") (simp_all add: hd_rev [symmetric])
  show ?thesis by (simp add: strip_def 1 2)
qed

lemma split_on_no_sep: "sep \<notin> set b \<Longrightarrow> split_on sep b = [b]"
  by (induction b) auto

lemma split_on_append: "sep \<notin> set a \<Longrightarrow> split_on sep (a @ sep # b) = a # split_on sep b"
  by (induction a) auto

lemma format_02d_shape:
  "\<exists>ds. ds \<noteq> [] \<and> list_all is_digit ds \<and>
        format_02d n = (if n < 0 then CHR ''-'' # ds else ds) \<and>
        foldl (\<lambda>a c. a * 10 + digit_val c) 0 ds = nat \<bar>n\<bar> \<and>
        (\<bar>n\<bar> < 100 \<longrightarrow> length ds \<le> 2)"
proof (cases "n < 0")
  case True
  then show ?thesis
    using decimal_all_digits [of "[]" "nat (- n)"] decimal_not_Nil [of "nat (- n)" "[]"]
      decimal_length_small [of "nat (- n)"]
    by (intro exI [of _ "decimal (nat (- n)) []"]) (simp add: format_02d_def foldl_decimal)
next
  case False
  show ?thesis
  proof (cases "n < 10")
    case True
    with False have "is_digit (CHR ''0'')" "digit_val (CHR ''0'') = 0"
      by (simp_all add: is_digit_def digit_val_def)
    moreover from True False have "length (decimal (nat n) []) = 1"
      by (simp add: decimal_small)
    ultimately show ?thesis
      using True False decimal_all_digits [of "[]" "nat n"]
      by (intro exI [of _ "CHR ''0'' # decimal (nat n) []"]) (simp add: format_02d_def foldl_decimal)
  next
    case ge: False
    with False show ?thesis
      using decimal_all_digits [of "[]" "nat n"] decimal_not_Nil [of "nat n" "[]"]
        decimal_length_small [of "nat n"]
      by (intro exI [of _ "decimal (nat n) []"]) (simp add: format_02d_def foldl_decimal)
  qed
qed

lemma py_int_digits:
  assumes "ds \<noteq> []" "list_all is_digit ds" "int (length ds) \<le> int_max_str_digits"
  shows "py_int ds = Inr (int (foldl (\<lambda>a c. a * 10 + digit_val c) 0 ds))"
    and "py_int (CHR ''-'' # ds) = Inr (- int (foldl (\<lambda>a c. a * 10 + digit_val c) 0 ds))"
proof -
  from assms obtain c cs where ds: "ds = c # cs" by (cases ds) auto
  from assms have hd: "is_digit (hd ds)" and lst: "is_digit (last ds)"
    by (auto simp: list_all_iff)
  have s1: "strip ds = ds"
    using assms(1) hd lst is_digit_cases by (intro strip_id) auto
  have "\<not> is_space (CHR ''-'')" by (simp add: is_space_def)
  then have s2: "strip (CHR ''-'' # ds) = CHR ''-'' # ds"
    using assms(1) lst is_digit_cases by (intro strip_id) auto
  from hd ds have c: "c \<noteq> CHR ''-''" "c \<noteq> CHR ''+''" using is_digit_cases by auto
  show "py_int ds = Inr (int (foldl (\<lambda>a c. a * 10 + digit_val c) 0 ds))"
    using unsigned_literal_digits [OF assms] c s1 by (simp add: py_int_def ds)
  show "py_int (CHR ''-'' # ds) = Inr (- int (foldl (\<lambda>a c. a * 10 + digit_val c) 0 ds))"
    using unsigned_literal_digits [OF assms] s2 by (simp add: py_int_def)
qed

lemma py_int_too_many_digits:
  assumes "list_all is_digit ds" and "int_max_str_digits < int (length ds)"
  shows "py_int ds = Inl ValueError"
proof -
  from assms(2) have ne: "ds \<noteq> []" by (auto simp: int_max_str_digits_def)
  then obtain c cs where ds: "ds = c # cs" by (cases ds) auto
  from assms(1) ne have "is_digit (hd ds)" "is_digit (last ds)" by (auto simp: list_all_iff)
  with ne have s: "strip ds = ds" using is_digit_cases by (intro strip_id) auto
  from assms have "\<not> int (length (filter is_digit ds)) \<le> int_max_str_digits"
    by (simp add: filter_all_digits)
  then have "unsigned_literal ds = None"
    unfolding unsigned_literal_def ds by (simp del: digits_from.simps filter.simps)
  moreover from assms(1) ds have "c \<noteq> CHR ''-''" "c \<noteq> CHR ''+''" using is_digit_cases by auto
  ultimately show ?thesis using s by (simp add: py_int_def ds)
qed

lemma py_int_format_02d:
  assumes "\<bar>n\<bar> < 100"
  shows "py_int (format_02d n) = Inr n"
proof -
  obtain ds where ds: "ds \<noteq> []" "list_all is_digit ds"
    "format_02d n = (if n < 0 then CHR ''-'' # ds else ds)"
    "foldl (\<lambda>a c. a * 10 + digit_val c) 0 ds = nat \<bar>n\<bar>"
    "\<bar>n\<bar> < 100 \<longrightarrow> length ds \<le> 2"
    using format_02d_shape by blast
  from ds(5) assms have "int (length ds) \<le> int_max_str_digits"
    by (simp add: int_max_str_digits_def)
  from py_int_digits [OF ds(1,2) this] ds(3,4) show ?thesis
    by (cases "n < 0") simp_all
qed

lemma format_02d_no_colon: "CHR '':'' \<notin> set (format_02d n)"
proof -
  obtain ds where ds: "list_all is_digit ds"
    "format_02d n = (if n < 0 then CHR ''-'' # ds else ds)"
    using format_02d_shape by blast
  then show ?thesis using is_digit_cases by (auto simp: list_all_iff)
qed

lemma time_to_minutes_try_minutes_to_time:
  assumes "0 \<le> m" and "m < 6000"
  shows "time_to_minutes_try (minutes_to_time m) = Inr m"
proof -
  from assms have h: "\<bar>m div 60\<bar> < 100" by simp
  have mi: "\<bar>m mod 60\<bar> < 100" by simp
  show ?thesis
    by (simp add: time_to_minutes_try_def time_to_minutes_try_with_def minutes_to_time_def
        split_on_append split_on_no_sep format_02d_no_colon py_int_format_02d [OF h]
        py_int_format_02d [OF mi] bind_def)
qed

lemma time_to_minutes_minutes_to_time:
  assumes "0 \<le> m" and "m < 6000"
  shows "time_to_minutes (minutes_to_time m) = Inr m"
  using time_to_minutes_try_minutes_to_time [OF assms]
  by (simp add: time_to_minutes_def time_to_minutes_with_def time_to_minutes_try_def)

subsection \<open>The conversions\<close>

text \<open>
  C8. For every valid minute of the day \<open>m\<close> (\<open>0 \<le> m < 1440\<close>), formatting \<open>m\<close> as an
  \<^verbatim>\<open>HH:MM\<close> string with \<open>minutes_to_time\<close> and reading the string back with
  \<open>time_to_minutes\<close> gives \<open>m\<close> again.
\<close>

theorem time_round_trip:
  assumes "0 \<le> m" and "m < 1440"
  shows "time_to_minutes (minutes_to_time m) = Inr m"
  using assms by (intro time_to_minutes_minutes_to_time) simp_all

theorem time_round_trip_witness:
  "(0::int) \<le> 615 \<and> (615::int) < 1440 \<and> minutes_to_time 615 = ''10:15'' \<and>
   time_to_minutes ''10:15'' = Inr 615"
proof -
  have fmt: "minutes_to_time 615 = ''10:15''" by code_simp
  show ?thesis using time_round_trip [of 615] by (simp add: fmt)
qed

text \<open>
  C9. \<open>time_to_minutes\<close> is total: on every string it returns a number and raises
  nothing, and on a string that does not split at its colons into exactly two parts that
  \<^verbatim>\<open>int\<close> reads, the number is 0. This holds whatever \<^verbatim>\<open>int\<close> accepts, so it is stated
  for \<open>time_to_minutes_with\<close> and every \<open>int_of_str\<close>; \<open>time_to_minutes\<close> is the case
  \<open>int_of_str = py_int\<close>.
\<close>

theorem time_to_minutes_total:
  "(\<exists>n. time_to_minutes_with int_of_str s = Inr n) \<and>
   ((\<nexists>a b h m. split_on CHR '':'' s = [a, b] \<and> int_of_str a = Inr h \<and> int_of_str b = Inr m)
      \<longrightarrow> time_to_minutes_with int_of_str s = Inr 0)"
proof (intro conjI impI)
  show "\<exists>n. time_to_minutes_with int_of_str s = Inr n"
    by (simp add: time_to_minutes_with_def split: sum.split)
next
  assume no: "\<nexists>a b h m. split_on CHR '':'' s = [a, b] \<and> int_of_str a = Inr h \<and>
    int_of_str b = Inr m"
  have "\<exists>e. time_to_minutes_try_with int_of_str s = Inl e"
  proof (cases "\<exists>a b. split_on CHR '':'' s = [a, b]")
    case True
    then obtain a b where ab: "split_on CHR '':'' s = [a, b]" by blast
    with no have "(\<exists>e. int_of_str a = Inl e) \<or> (\<exists>e. int_of_str b = Inl e)"
      by (cases "int_of_str a"; cases "int_of_str b") auto
    with ab show ?thesis
      by (auto simp: time_to_minutes_try_with_def bind_def split: sum.split)
  next
    case False
    then show ?thesis
      by (auto simp: time_to_minutes_try_with_def split: list.split)
  qed
  then show "time_to_minutes_with int_of_str s = Inr 0"
    by (auto simp: time_to_minutes_with_def)
qed

theorem time_to_minutes_total_witness:
  "split_on CHR '':'' ''9am'' = [''9am''] \<and> time_to_minutes ''9am'' = Inr 0 \<and>
   split_on CHR '':'' ''ab:30'' = [''ab'', ''30''] \<and> py_int ''ab'' = Inl ValueError \<and>
   time_to_minutes ''ab:30'' = Inr 0 \<and>
   split_on CHR '':'' (CHR 0x1C # ''9:05'') = [CHR 0x1C # ''9'', ''05''] \<and>
   py_int (CHR 0x1C # ''9'') = Inl ValueError \<and>
   time_to_minutes (CHR 0x1C # ''9:05'') = Inr 0"
proof -
  have 1: "split_on CHR '':'' ''9am'' = [''9am'']" by code_simp
  have 2: "split_on CHR '':'' ''ab:30'' = [''ab'', ''30'']" by code_simp
  have 3: "py_int ''ab'' = Inl ValueError" by code_simp
  have 4: "split_on CHR '':'' (CHR 0x1C # ''9:05'') = [CHR 0x1C # ''9'', ''05'']" by code_simp
  have 5: "py_int (CHR 0x1C # ''9'') = Inl ValueError" by code_simp
  from time_to_minutes_total [of py_int "''9am''"]
  have a: "time_to_minutes ''9am'' = Inr 0" by (simp add: 1 time_to_minutes_def)
  from time_to_minutes_total [of py_int "''ab:30''"]
  have b: "time_to_minutes ''ab:30'' = Inr 0" by (simp add: 2 3 time_to_minutes_def)
  from time_to_minutes_total [of py_int "CHR 0x1C # ''9:05''"]
  have c: "time_to_minutes (CHR 0x1C # ''9:05'') = Inr 0" by (simp add: 4 5 time_to_minutes_def)
  from 1 2 3 4 5 a b c show ?thesis by (intro conjI)
qed

text \<open>
  C7. For every arrival minute and every window whose start and end strings stand for the
  minutes \<open>start_minutes\<close> and \<open>end_minutes\<close>, \<open>is_time_window_valid\<close> holds exactly
  when: if \<open>end_minutes < start_minutes\<close> (the window wraps midnight) the arrival is at or
  after the start or at or before the end, and otherwise the arrival lies between them.
\<close>

theorem is_time_window_valid_iff:
  assumes "time_to_minutes time_window_start = Inr start_minutes"
    and "time_to_minutes time_window_end = Inr end_minutes"
  shows "is_time_window_valid arrival time_window_start time_window_end =
         Inr (if end_minutes < start_minutes
              then arrival \<ge> start_minutes \<or> arrival \<le> end_minutes
              else start_minutes \<le> arrival \<and> arrival \<le> end_minutes)"
  using assms by (simp add: is_time_window_valid_def bind_def)

theorem is_time_window_valid_iff_witness:
  "time_to_minutes ''22:00'' = Inr 1320 \<and> time_to_minutes ''06:00'' = Inr 360 \<and>
   is_time_window_valid 30 ''22:00'' ''06:00'' = Inr True \<and>
   is_time_window_valid 720 ''22:00'' ''06:00'' = Inr False \<and>
   is_time_window_valid 720 ''06:00'' ''22:00'' = Inr True \<and>
   is_time_window_valid 30 ''06:00'' ''22:00'' = Inr False"
proof -
  have a: "time_to_minutes ''22:00'' = Inr 1320" by code_simp
  have b: "time_to_minutes ''06:00'' = Inr 360" by code_simp
  show ?thesis
    using is_time_window_valid_iff [OF a b, of 30] is_time_window_valid_iff [OF a b, of 720]
      is_time_window_valid_iff [OF b a, of 30] is_time_window_valid_iff [OF b a, of 720]
    by (simp add: a b)
qed

section \<open>The routing engine and the handler\<close>

subsection \<open>Shape of the results\<close>

lemma bind_eq_Inr: "bind m f = Inr r \<longleftrightarrow> (\<exists>v. m = Inr v \<and> f v = Inr r)"
  by (cases m) (simp_all add: bind_def)

lemma bind_eq_Inl: "bind m f = Inl e \<longleftrightarrow> m = Inl e \<or> (\<exists>v. m = Inr v \<and> f v = Inl e)"
  by (cases m) (simp_all add: bind_def)

lemma reason_of_entry: "map_of (skipped_entry d reason) ''reason'' = Some (PStr reason)"
  by (simp add: skipped_entry_def)

lemma optimize_route_None:
  "optimize_route geodesic self request None =
     Inr (create_infeasible_response (req_pickup request) (req_deliveries request))"
  by (simp add: optimize_route_def Let_def split: prod.split)

lemma optimize_route_Some:
  "optimize_route geodesic self request (Some visits) = Inr r \<Longrightarrow>
   is_feasible r \<and>
   (\<exists>route_stops. route r = route_stops \<and>
      extract_route visits (req_pickup request) (req_deliveries request) (req_settings request)
        (snd (create_distance_matrix geodesic self
           ((p_lat (req_pickup request), p_lng (req_pickup request)) #
            map (\<lambda>delivery. (d_lat delivery, d_lng delivery)) (req_deliveries request))))
        = Inr route_stops \<and>
      skipped_deliveries r = determine_skipped_deliveries (req_deliveries request) route_stops)"
  by (auto simp: optimize_route_def prepare_optimization_data_def Let_def bind_eq_Inr
      split: prod.splits)

lemma engine_reasons:
  assumes "optimize_route geodesic self request solution = Inr r"
    and "e \<in> set (skipped_deliveries r)"
  shows "map_of e ''reason'' = Some (PStr ''Not included in optimal route'') \<or>
         map_of e ''reason'' = Some (PStr ''Route infeasible - time constraints cannot be met'')"
proof (cases solution)
  case None
  with assms show ?thesis
    by (auto simp: optimize_route_None create_infeasible_response_def reason_of_entry)
next
  case (Some visits)
  with assms optimize_route_Some [of geodesic self request visits r] show ?thesis
    by (auto simp: determine_skipped_deliveries_def reason_of_entry)
qed

lemma extract_route_loop_length:
  "extract_route_loop pickup deliveries settings time_matrix from_node now nodes = Inr stops \<Longrightarrow>
   length stops = length nodes"
proof (induction nodes arbitrary: from_node now stops)
  case Nil
  then show ?case by simp
next
  case (Cons to_node rest)
  then show ?case
    by (auto simp: bind_eq_Inr Let_def)
qed

lemma extract_route_loop_last:
  "extract_route_loop pickup deliveries settings time_matrix from_node now (visits @ [0]) = Inr stops \<Longrightarrow>
   \<exists>arrival. last stops = return_stop pickup arrival"
proof (induction visits arbitrary: from_node now stops)
  case Nil
  then show ?case by (auto simp: bind_eq_Inr Let_def)
next
  case (Cons to_node rest)
  from Cons.prems obtain route_stop tail node_now where
    stops: "stops = route_stop # tail" and
    tail: "extract_route_loop pickup deliveries settings time_matrix to_node node_now (rest @ [0]) = Inr tail"
    by (auto simp: bind_eq_Inr Let_def)
  from extract_route_loop_length [OF tail] have "tail \<noteq> []" by auto
  with Cons.IH [OF tail] stops show ?case by simp
qed

lemma extract_route_shape:
  assumes "extract_route visits pickup deliveries settings time_matrix = Inr route_stops"
  shows "\<exists>stops arrival. route_stops = pickup_stop pickup # stops \<and> stops \<noteq> [] \<and>
           length stops = Suc (length visits) \<and> last stops = return_stop pickup arrival"
proof -
  from assms obtain start stops where
    rs: "route_stops = pickup_stop pickup # stops" and
    loop: "extract_route_loop pickup deliveries settings time_matrix 0 (Finite (of_int start))
             (visits @ [0]) = Inr stops"
    by (auto simp: extract_route_def bind_eq_Inr)
  from extract_route_loop_length [OF loop] have len: "length stops = Suc (length visits)" by simp
  then have "stops \<noteq> []" by auto
  with rs len extract_route_loop_last [OF loop] show ?thesis by blast
qed

lemma total_time_from_Infinity:
  "calculate_total_time_from geodesic self service Infinity stops = Inr t \<Longrightarrow> t = Infinity"
proof (induction geodesic self service "Infinity" stops rule: calculate_total_time_from.induct)
  case (1 geodesic self service a b rest)
  then show ?case by (auto simp: bind_eq_Inr Let_def split: if_splits)
qed simp_all

lemma travel_time_nonpositive:
  "default_speed_kmh self \<le> 0 \<Longrightarrow> calculate_travel_time self d None = Infinity"
  by (simp add: calculate_travel_time_def)

lemma total_time_nonpositive_speed:
  assumes "default_speed_kmh self \<le> 0"
  shows "calculate_total_time geodesic self (a # b # rest) service \<noteq> Inr t"
proof
  assume "calculate_total_time geodesic self (a # b # rest) service = Inr t"
  then obtain total where
    total: "calculate_total_time_from geodesic self service (Finite 0) (a # b # rest) = Inr total"
    and t: "int_of_float total = Inr t"
    by (auto simp: calculate_total_time_def bind_eq_Inr)
  from total assms have "total = Infinity"
    by (auto simp: bind_eq_Inr Let_def travel_time_nonpositive
        dest: total_time_from_Infinity split: if_splits)
  with t show False by simp
qed

lemma optimize_route_nonpositive_speed:
  assumes "default_speed_kmh self \<le> 0"
  shows "optimize_route geodesic self request (Some visits) \<noteq> Inr r"
proof
  assume r: "optimize_route geodesic self request (Some visits) = Inr r"
  then obtain route_stops t where
    ex: "extract_route visits (req_pickup request) (req_deliveries request) (req_settings request)
        (snd (create_distance_matrix geodesic self
           ((p_lat (req_pickup request), p_lng (req_pickup request)) #
            map (\<lambda>delivery. (d_lat delivery, d_lng delivery)) (req_deliveries request))))
        = Inr route_stops"
    and tt: "calculate_total_time geodesic self route_stops
               (time_per_stop_minutes (req_settings request)) = Inr t"
    by (auto simp: optimize_route_def prepare_optimization_data_def Let_def bind_eq_Inr
        split: prod.splits)
  from extract_route_shape [OF ex] obtain a b rest where "route_stops = a # b # rest"
    by (metis neq_Nil_conv)
  with tt total_time_nonpositive_speed [OF assms] show False by blast
qed

lemma endpoint_Inl_iff:
  "(\<exists>e. optimize_route_endpoint geodesic calc request solution = Inl e) \<longleftrightarrow>
     (req_deliveries request = [] \<or>
      \<not> validate_coordinates (p_lat (req_pickup request)) (p_lng (req_pickup request)) \<or>
      (\<exists>d \<in> set (req_deliveries request). \<not> validate_coordinates (d_lat d) (d_lng d)))"
proof (cases "find (\<lambda>delivery. \<not> validate_coordinates (d_lat delivery) (d_lng delivery))
                (req_deliveries request)")
  case None
  then have "\<forall>d \<in> set (req_deliveries request). validate_coordinates (d_lat d) (d_lng d)"
    by (simp add: find_None_iff)
  then show ?thesis
    by (auto simp: optimize_route_endpoint_def None split: sum.splits)
next
  case (Some d)
  then have "d \<in> set (req_deliveries request)" "\<not> validate_coordinates (d_lat d) (d_lng d)"
    by (auto simp: find_Some_iff)
  with Some show ?thesis
    by (auto simp: optimize_route_endpoint_def)
qed

lemma endpoint_Inl_any_solution:
  "optimize_route_endpoint geodesic calc request solution = Inl e \<Longrightarrow>
   status_code e = 400 \<and> optimize_route_endpoint geodesic calc request solution' = Inl e"
  by (auto simp: optimize_route_endpoint_def split: option.splits sum.splits if_splits)

lemma endpoint_Inr:
  "optimize_route_endpoint geodesic calc request solution = Inr r \<Longrightarrow>
   optimize_route geodesic calc request solution = Inr r \<or>
   (\<exists>e. optimize_route geodesic calc request solution = Inl e \<and> r = error_response e)"
  by (auto simp: optimize_route_endpoint_def split: option.splits sum.splits if_splits)

lemma invalid_coordinates_iff:
  "\<not> validate_coordinates a b \<longleftrightarrow> a < - 90 \<or> 90 < a \<or> b < - 180 \<or> 180 < b"
  by (auto simp: validate_coordinates_def)

subsection \<open>Time windows and the feasibility flag\<close>

text \<open>
  C1 (the code departs from the claim). The claim: in every result whose feasibility flag is
  true, each delivery stop of the route is reached within that delivery's time window and
  within the pickup's operating window. The code never compares an arrival with a window:
  \<^verbatim>\<open>_solve_routing_problem\<close> drops the \<open>time_windows\<close> it is given, \<open>is_time_window_valid\<close>
  has no caller, and \<open>optimize_route\<close> sets the flag whenever the solver answers. Evaluated:
  the warehouse opens at 09:00, the one delivery lies at the warehouse and accepts between
  06:00 and 08:00; the only tour visits it; the result is flagged feasible with the arrival
  at 09:00, minute 540, which the delivery's window does not contain.
\<close>

theorem feasible_route_misses_window:
  "full_tour 1 [1] \<and>
   (case optimize_route_endpoint coincident_km configured
           (request_of (settings_with True 40) [delivery_at_warehouse ''Client A'' ''06:00'' ''08:00''])
           (Some [1]) of
      Inl e \<Rightarrow> False
    | Inr r \<Rightarrow> is_feasible r \<and>
        map stop (route r) = [''Warehouse, Mumbai'', ''Client A'', ''Warehouse, Mumbai (Return)''] \<and>
        map arrival_time (route r) = [''09:00'', ''09:00'', ''09:10''] \<and>
        skipped_deliveries r = []) \<and>
   time_to_minutes ''09:00'' = Inr 540 \<and>
   is_time_window_valid 540 ''06:00'' ''08:00'' = Inr False"
  by code_simp

subsection \<open>Returning to the pickup\<close>

text \<open>
  C2 (the code departs from the claim). The claim: the pickup is the first stop of every
  returned route, and it is the last stop again exactly when \<open>return_to_origin\<close> is true.
  The code never reads \<open>return_to_origin\<close>: the walk of \<^verbatim>\<open>_extract_route\<close> ends at the
  tour's end index, which is the depot, so every route ends with the return stop
  (\<open>extract_route_shape\<close>). Evaluated with \<open>return_to_origin\<close> false: the route still
  ends at the pickup.
\<close>

theorem route_returns_despite_setting:
  "return_to_origin (settings_with False 40) = False \<and>
   (case optimize_route_endpoint coincident_km configured
           (request_of (settings_with False 40) [delivery_at_warehouse ''Client A'' ''09:00'' ''18:00''])
           (Some [1]) of
      Inl e \<Rightarrow> False
    | Inr r \<Rightarrow> is_feasible r \<and>
        map stop (route r) = [''Warehouse, Mumbai'', ''Client A'', ''Warehouse, Mumbai (Return)''] \<and>
        last (route r) = return_stop warehouse ''09:10'')"
  by code_simp

subsection \<open>Degenerate speed\<close>

text \<open>
  C3 (the code departs from the claim). The claim: a vehicle speed of 0 in the request's
  settings makes every travel time infinite, and the result is infeasible with every
  delivery skipped. The code never reads \<open>vehicle_speed_kmph\<close>: travel times come from the
  calculator's configured \<open>default_speed_kmh\<close>. Evaluated with a vehicle speed of 0 and the
  configured 50 km/h: the travel time is finite, the delivery is routed and the result is
  flagged feasible with nothing skipped. And where the speed that is used is 0, the travel
  time is infinite as the claim says, but the engine does not reach
  \<^verbatim>\<open>_create_infeasible_response\<close>: \<^verbatim>\<open>int(current_time_minutes)\<close> raises OverflowError in
  \<^verbatim>\<open>_extract_route\<close> (for every tour, \<open>optimize_route_nonpositive_speed\<close>), and the handler
  answers with one internal-error entry in place of the skipped deliveries.
\<close>

theorem zero_vehicle_speed_feasible:
  "vehicle_speed_kmph (settings_with True 0) = 0 \<and>
   calculate_travel_time configured 0 None = Finite 0 \<and>
   (case optimize_route_endpoint coincident_km configured
           (request_of (settings_with True 0) [delivery_at_warehouse ''Client A'' ''09:00'' ''18:00''])
           (Some [1]) of
      Inl e \<Rightarrow> False
    | Inr r \<Rightarrow> is_feasible r \<and> skipped_deliveries r = [] \<and>
        map stop (route r) = [''Warehouse, Mumbai'', ''Client A'', ''Warehouse, Mumbai (Return)'']) \<and>
   calculate_travel_time \<lparr>default_speed_kmh = 0\<rparr> 0 None = Infinity \<and>
   optimize_route coincident_km \<lparr>default_speed_kmh = 0\<rparr>
     (request_of (settings_with True 0) [delivery_at_warehouse ''Client A'' ''09:00'' ''18:00''])
     (Some [1]) = Inl OverflowError \<and>
   (case optimize_route_endpoint coincident_km \<lparr>default_speed_kmh = 0\<rparr>
           (request_of (settings_with True 0) [delivery_at_warehouse ''Client A'' ''09:00'' ''18:00''])
           (Some [1]) of
      Inl e \<Rightarrow> False
    | Inr r \<Rightarrow> \<not> is_feasible r \<and>
        skipped_deliveries r =
          [[(''error'', PStr ''Internal server error: cannot convert float infinity to integer'')]])"
  by code_simp

subsection \<open>Rejected requests\<close>

text \<open>
  C4, as the claim states it, fails: a request whose pickup opens at \<^verbatim>\<open>9am\<close>, a string
  that does not parse as \<^verbatim>\<open>HH:MM\<close>, is not rejected; the string is read as minute 0 and
  the route is computed from 00:00.
\<close>

theorem malformed_time_not_rejected:
  "time_to_minutes_try ''9am'' = Inl ValueError \<and>
   (case optimize_route_endpoint coincident_km configured
           ((request_of (settings_with True 40) [delivery_at_warehouse ''Client A'' ''09:00'' ''18:00''])
              \<lparr>req_pickup := warehouse\<lparr>start_time := ''9am''\<rparr>\<rparr>)
           (Some [1]) of
      Inl e \<Rightarrow> False
    | Inr r \<Rightarrow> is_feasible r \<and> map arrival_time (route r) = [''9am'', ''00:00'', ''00:10''])"
  by code_simp

text \<open>
  C4, amended. The handler rejects a request (HTTP 400) exactly when its delivery list is
  empty or a latitude lies outside [-90, 90] or a longitude outside [-180, 180], for the
  pickup or for a delivery; the rejection does not depend on the solver's answer, so it
  precedes any search. Time strings play no part in it.
\<close>

theorem rejection_iff:
  "((\<exists>e. optimize_route_endpoint geodesic calc request solution = Inl e) \<longleftrightarrow>
      req_deliveries request = [] \<or>
      (p_lat (req_pickup request) < - 90 \<or> 90 < p_lat (req_pickup request) \<or>
       p_lng (req_pickup request) < - 180 \<or> 180 < p_lng (req_pickup request)) \<or>
      (\<exists>d \<in> set (req_deliveries request).
         d_lat d < - 90 \<or> 90 < d_lat d \<or> d_lng d < - 180 \<or> 180 < d_lng d)) \<and>
   (\<forall>e. optimize_route_endpoint geodesic calc request solution = Inl e \<longrightarrow>
      status_code e = 400 \<and>
      (\<forall>solution'. optimize_route_endpoint geodesic calc request solution' = Inl e))"
proof (intro conjI allI impI)
  show "(\<exists>e. optimize_route_endpoint geodesic calc request solution = Inl e) \<longleftrightarrow>
      req_deliveries request = [] \<or>
      (p_lat (req_pickup request) < - 90 \<or> 90 < p_lat (req_pickup request) \<or>
       p_lng (req_pickup request) < - 180 \<or> 180 < p_lng (req_pickup request)) \<or>
      (\<exists>d \<in> set (req_deliveries request).
         d_lat d < - 90 \<or> 90 < d_lat d \<or> d_lng d < - 180 \<or> 180 < d_lng d)"
    by (simp only: endpoint_Inl_iff invalid_coordinates_iff)
next
  fix e assume "optimize_route_endpoint geodesic calc request solution = Inl e"
  then show "status_code e = 400" by (rule endpoint_Inl_any_solution [THEN conjunct1])
next
  fix e solution'
  assume "optimize_route_endpoint geodesic calc request solution = Inl e"
  then show "optimize_route_endpoint geodesic calc request solution' = Inl e"
    by (rule endpoint_Inl_any_solution [THEN conjunct2])
qed

theorem rejection_iff_witness:
  "optimize_route_endpoint coincident_km configured (request_of (settings_with True 40) []) (Some [])
     = Inl (HTTPException 400 NoDeliveries) \<and>
   status_code (HTTPException 400 NoDeliveries) = 400 \<and>
   optimize_route_endpoint coincident_km configured (request_of (settings_with True 40) []) None
     = Inl (HTTPException 400 NoDeliveries)"
proof -
  let ?empty = "request_of (settings_with True 40) []"
  have a: "optimize_route_endpoint coincident_km configured ?empty (Some [])
     = Inl (HTTPException 400 NoDeliveries)"
    by code_simp
  note t = rejection_iff [of coincident_km configured ?empty "Some []"]
  from t [THEN conjunct2, rule_format, OF a]
  have "status_code (HTTPException 400 NoDeliveries) = 400"
    and "optimize_route_endpoint coincident_km configured ?empty None
       = Inl (HTTPException 400 NoDeliveries)"
    by (rule conjunct1, blast)
  with a show ?thesis by (intro conjI)
qed

subsection \<open>Skipped deliveries\<close>

text \<open>
  C5, as the claim states it, fails: the reason of a delivery skipped in an infeasible
  result is \<^verbatim>\<open>Route infeasible - time constraints cannot be met\<close>, which is none of
  \<^verbatim>\<open>excluded_by_optimizer\<close>, \<^verbatim>\<open>time_window_unreachable\<close>, \<^verbatim>\<open>infeasible_route\<close>.
\<close>

theorem reason_outside_enumeration:
  "(case optimize_route coincident_km configured
           (request_of (settings_with True 40) [delivery_at_warehouse ''Client A'' ''09:00'' ''18:00''])
           None of
      Inl e \<Rightarrow> False
    | Inr r \<Rightarrow> map (\<lambda>e. map_of e ''reason'') (skipped_deliveries r) =
                 [Some (PStr ''Route infeasible - time constraints cannot be met'')]) \<and>
   ''Route infeasible - time constraints cannot be met'' \<notin>
     {''excluded_by_optimizer'', ''time_window_unreachable'', ''infeasible_route''}"
  by code_simp

text \<open>
  C5, amended. In every result of the engine, the reason of each skipped delivery is one of
  the two fixed strings \<^verbatim>\<open>Not included in optimal route\<close> and
  \<^verbatim>\<open>Route infeasible - time constraints cannot be met\<close>; in a result of the handler, the
  only other entry is the one that reports an internal error, which has no reason.
\<close>

theorem skipped_reasons_fixed:
  "(\<forall>r. optimize_route geodesic self request solution = Inr r \<longrightarrow>
      (\<forall>e \<in> set (skipped_deliveries r).
         map_of e ''reason'' = Some (PStr ''Not included in optimal route'') \<or>
         map_of e ''reason'' = Some (PStr ''Route infeasible - time constraints cannot be met''))) \<and>
   (\<forall>r. optimize_route_endpoint geodesic self request solution = Inr r \<longrightarrow>
      (\<forall>e \<in> set (skipped_deliveries r).
         map_of e ''reason'' = Some (PStr ''Not included in optimal route'') \<or>
         map_of e ''reason'' = Some (PStr ''Route infeasible - time constraints cannot be met'') \<or>
         (\<exists>err. e = [(''error'', PStr (''Internal server error: '' @ str_of_error err))])))"
proof (intro conjI allI impI ballI)
  fix r e
  assume "optimize_route geodesic self request solution = Inr r" "e \<in> set (skipped_deliveries r)"
  then show "map_of e ''reason'' = Some (PStr ''Not included in optimal route'') \<or>
         map_of e ''reason'' = Some (PStr ''Route infeasible - time constraints cannot be met'')"
    by (rule engine_reasons)
next
  fix r e
  assume r: "optimize_route_endpoint geodesic self request solution = Inr r"
    and e: "e \<in> set (skipped_deliveries r)"
  from endpoint_Inr [OF r]
  show "map_of e ''reason'' = Some (PStr ''Not included in optimal route'') \<or>
         map_of e ''reason'' = Some (PStr ''Route infeasible - time constraints cannot be met'') \<or>
         (\<exists>err. e = [(''error'', PStr (''Internal server error: '' @ str_of_error err))])"
  proof
    assume "optimize_route geodesic self request solution = Inr r"
    from engine_reasons [OF this e] show ?thesis by blast
  next
    assume "\<exists>err. optimize_route geodesic self request solution = Inl err \<and> r = error_response err"
    with e show ?thesis by (auto simp: error_response_def)
  qed
qed

theorem skipped_reasons_fixed_witness:
  "optimize_route coincident_km configured
     (request_of (settings_with True 40) [delivery_at_warehouse [] ''09:00'' ''18:00''])
     (Some [1]) =
   Inr \<lparr>route = [pickup_stop warehouse,
                 delivery_stop (delivery_at_warehouse [] ''09:00'' ''18:00'') ''09:00'' ''09:10'',
                 return_stop warehouse ''09:10''],
        total_distance_km = 0, total_time_minutes = 10, is_feasible = True,
        skipped_deliveries =
          [skipped_entry (delivery_at_warehouse [] ''09:00'' ''18:00'')
             ''Not included in optimal route''],
        optimization_metrics =
          [(''optimization_method'', PStr ''priority''), (''total_stops'', PInt 3),
           (''skipped_stops'', PInt 1)]\<rparr> \<and>
   (map_of (skipped_entry (delivery_at_warehouse [] ''09:00'' ''18:00'')
              ''Not included in optimal route'') ''reason''
      = Some (PStr ''Not included in optimal route'') \<or>
    map_of (skipped_entry (delivery_at_warehouse [] ''09:00'' ''18:00'')
              ''Not included in optimal route'') ''reason''
      = Some (PStr ''Route infeasible - time constraints cannot be met''))"
proof -
  let ?req = "request_of (settings_with True 40) [delivery_at_warehouse [] ''09:00'' ''18:00'']"
  let ?entry = "skipped_entry (delivery_at_warehouse [] ''09:00'' ''18:00'')
             ''Not included in optimal route''"
  let ?r = "\<lparr>route = [pickup_stop warehouse,
                 delivery_stop (delivery_at_warehouse [] ''09:00'' ''18:00'') ''09:00'' ''09:10'',
                 return_stop warehouse ''09:10''],
        total_distance_km = 0, total_time_minutes = 10, is_feasible = True,
        skipped_deliveries = [?entry],
        optimization_metrics =
          [(''optimization_method'', PStr ''priority''), (''total_stops'', PInt 3),
           (''skipped_stops'', PInt 1)]\<rparr>"
  have r: "optimize_route coincident_km configured ?req (Some [1]) = Inr ?r"
    by code_simp
  have "?entry \<in> set (skipped_deliveries ?r)" by simp
  with skipped_reasons_fixed [of coincident_km configured ?req "Some [1]"] r
  show ?thesis by blast
qed

text \<open>
  C6 (the code departs from the claim). The claim: a request for which no feasible tour can
  be constructed gets a result with the feasibility flag false that lists every delivery as
  skipped. The code takes that branch only when the solver returns no assignment, and the
  solver is given no time window, so a found tour is always reported as feasible. Evaluated:
  the warehouse opens at 09:00 and both deliveries close before that, at 08:00 and at 07:30,
  so neither of the two tours can meet a window; for either tour the result is flagged
  feasible with nothing skipped, not the listing of \<open>create_infeasible_response\<close>.
\<close>

theorem no_feasible_tour_flagged_feasible:
  "full_tour 2 [1, 2] \<and> full_tour 2 [2, 1] \<and>
   (case optimize_route_endpoint coincident_km configured
           (request_of (settings_with True 40)
              [delivery_at_warehouse ''Client A'' ''06:00'' ''08:00'',
               delivery_at_warehouse ''Client B'' ''05:00'' ''07:30''])
           (Some [1, 2]) of
      Inl e \<Rightarrow> False
    | Inr r \<Rightarrow> is_feasible r \<and> skipped_deliveries r = [] \<and>
        map stop (route r) =
          [''Warehouse, Mumbai'', ''Client A'', ''Client B'', ''Warehouse, Mumbai (Return)''] \<and>
        map arrival_time (route r) = [''09:00'', ''09:00'', ''09:10'', ''09:20'']) \<and>
   (case optimize_route_endpoint coincident_km configured
           (request_of (settings_with True 40)
              [delivery_at_warehouse ''Client A'' ''06:00'' ''08:00'',
               delivery_at_warehouse ''Client B'' ''05:00'' ''07:30''])
           (Some [2, 1]) of
      Inl e \<Rightarrow> False
    | Inr r \<Rightarrow> is_feasible r \<and> skipped_deliveries r = [] \<and>
        map stop (route r) =
          [''Warehouse, Mumbai'', ''Client B'', ''Client A'', ''Warehouse, Mumbai (Return)''] \<and>
        map arrival_time (route r) = [''09:00'', ''09:00'', ''09:10'', ''09:20'']) \<and>
   time_to_minutes ''09:00'' = Inr 540 \<and> time_to_minutes ''09:10'' = Inr 550 \<and>
   is_time_window_valid 540 ''06:00'' ''08:00'' = Inr False \<and>
   is_time_window_valid 550 ''06:00'' ''08:00'' = Inr False \<and>
   is_time_window_valid 540 ''05:00'' ''07:30'' = Inr False \<and>
   is_time_window_valid 550 ''05:00'' ''07:30'' = Inr False \<and>
   map (\<lambda>e. (map_of e ''address'', map_of e ''reason''))
     (skipped_deliveries (create_infeasible_response warehouse
        [delivery_at_warehouse ''Client A'' ''06:00'' ''08:00'',
         delivery_at_warehouse ''Client B'' ''05:00'' ''07:30''])) =
     [(Some (PStr ''Client A''),
       Some (PStr ''Route infeasible - time constraints cannot be met'')),
      (Some (PStr ''Client B''),
       Some (PStr ''Route infeasible - time constraints cannot be met''))]"
  by code_simp

text \<open>
  C10 (the code departs from the claim). The claim: the report goes by address, a delivery
  being reported as skipped exactly when its address differs from the address of every stop
  of the route but the return stop; so of two deliveries at one address of which one is
  visited, neither is reported. The code reports visited deliveries in two cases. The test
  \<^verbatim>\<open>if stop.address\<close> drops a stop whose address is the empty string: a delivery with an
  empty address is visited, its stop carries its address, and it is reported as
  \<^verbatim>\<open>Not included in optimal route\<close>. The test \<^verbatim>\<open>"Return" not in stop.stop\<close>, meant for the
  return stop, drops every stop whose label contains \<^verbatim>\<open>Return\<close>: of two deliveries at
  \<^verbatim>\<open>12 Return Road\<close> of which the first is visited, both are reported.
\<close>

theorem visited_yet_reported:
  "(case optimize_route coincident_km configured
           (request_of (settings_with True 40) [delivery_at_warehouse [] ''09:00'' ''18:00''])
           (Some [1]) of
      Inl e \<Rightarrow> False
    | Inr r \<Rightarrow>
        map address (route r) = [Some ''Warehouse, Mumbai'', Some [], Some ''Warehouse, Mumbai''] \<and>
        map stop (route r) = [''Warehouse, Mumbai'', [], ''Warehouse, Mumbai (Return)''] \<and>
        map (\<lambda>e. map_of e ''address'') (skipped_deliveries r) = [Some (PStr [])]) \<and>
   map (\<lambda>e. map_of e ''zipcode'')
     (determine_skipped_deliveries
        [delivery_at_warehouse ''12 Return Road'' ''09:00'' ''18:00'',
         (delivery_at_warehouse ''12 Return Road'' ''09:00'' ''18:00'')\<lparr>d_zipcode := ''400002''\<rparr>]
        [pickup_stop warehouse,
         delivery_stop (delivery_at_warehouse ''12 Return Road'' ''09:00'' ''18:00'') ''09:00'' ''09:10'',
         return_stop warehouse ''09:10'']) =
     [Some (PStr ''400001''), Some (PStr ''400002'')]"
  by code_simp

end
